theory Spec2Isabelle
  imports Complex_Main
begin

section \<open>Numbers, rounding and dates\<close>

text \<open>
  The loan calculator of \<^verbatim>\<open>script.js\<close> computes on JavaScript numbers. They are
  modelled here as exact reals: every arithmetic operation of the source is the
  corresponding operation on \<^typ>\<open>real\<close>, without the rounding of binary floating point
  and without NaN or the infinities. The month counter and the payment numbers, which the
  source only ever increments from \<open>0\<close>, are natural numbers.

  \<^verbatim>\<open>Math.round\<close> rounds to the nearest integer, a tie going up; \<^verbatim>\<open>Math.pow\<close> is only
  ever called on a base \<open>1 + monthlyRate\<close>, which is positive for the inputs considered.

  Exact reals agree with the source wherever no product lands within rounding error of a
  half-cent tie and nothing overflows. Statements that would depend on either are made
  about the program over an arbitrary arithmetic instead (see below), of which the exact
  reals and the numbers of JavaScript are both instances.
\<close>

definition Math_round :: "real \<Rightarrow> real" where
  "Math_round x = of_int \<lfloor>x + 1 / 2\<rfloor>"

definition Math_pow :: "real \<Rightarrow> real \<Rightarrow> real" where
  "Math_pow x y = x powr y"

text \<open>
  A \<^verbatim>\<open>Date\<close> is kept as its year and its month index (\<open>0\<close> to \<open>11\<close>). The source sets the
  day of the base date to \<open>1\<close>, so that \<^verbatim>\<open>setMonth\<close> never overflows on the day; the time
  of day is carried along unchanged and is not modelled.
\<close>

record js_date =
  fullYear :: int
  monthIndex :: int

definition setMonth :: "js_date \<Rightarrow> int \<Rightarrow> js_date" where
  "setMonth d k = \<lparr>fullYear = fullYear d + k div 12, monthIndex = k mod 12\<rparr>"

section \<open>The data model\<close>

datatype error = InvalidInput

record 'n PaymentRecord =
  paymentNumber :: nat
  date :: js_date
  interestPaid :: 'n
  principalPaid :: 'n
  remainingBalance :: 'n

record 'n AmortizationResult =
  monthsToPayoff :: nat
  totalInterestPaid :: 'n
  totalInterestSaved :: 'n
  monthlyPayment :: 'n
  schedule :: "'n PaymentRecord list"


section \<open>The amortization engine\<close>

text \<open>
  The variables that the \<^verbatim>\<open>while\<close> loop of \<^verbatim>\<open>calculateAmortization\<close> updates:
  \<open>balance\<close>, \<open>totalInterestPaid\<close>, \<open>monthsToPayoff\<close> and \<open>schedule\<close>, in this order.
\<close>

type_synonym loop_state = "real \<times> real \<times> nat \<times> real PaymentRecord list"

text \<open>One pass through the body of the loop (lines 93 to 140 of the source).\<close>

fun loop_body :: "real \<Rightarrow> real \<Rightarrow> real \<Rightarrow> js_date \<Rightarrow> loop_state \<Rightarrow> loop_state" where
  "loop_body payment monthlyRate extraMonthlyPayment baseDate
     (balance, totalInterest, months, sched) =
   (let months' = months + 1;
        monthlyInterest = balance * monthlyRate;
        totalInterest' = totalInterest + monthlyInterest;
        principalPayment = payment - monthlyInterest;
        totalPrincipalPayment = principalPayment + extraMonthlyPayment;
        number = months';
        interest = Math_round (monthlyInterest * 100) / 100;
        principalPart = Math_round (totalPrincipalPayment * 100) / 100;
        balance' = balance - totalPrincipalPayment;
        overpayment = \<bar>balance'\<bar>;
        totalInterest'' =
          (if balance' < 0 then max 0 (totalInterest' - overpayment) else totalInterest');
        remaining = Math_round ((if balance' < 0 then 0 else balance') * 100) / 100;
        currentPaymentDate = setMonth baseDate (monthIndex baseDate + int number)
    in (remaining, totalInterest'', months',
        sched @ [\<lparr>paymentNumber = number, date = currentPaymentDate,
                   interestPaid = interest, principalPaid = principalPart,
                   remainingBalance = remaining\<rparr>]))"

text \<open>The guard of the loop (line 92).\<close>

fun loop_guard :: "real \<Rightarrow> loop_state \<Rightarrow> bool" where
  "loop_guard maxMonths (balance, totalInterest, months, sched) =
     (balance > 0.01 \<and> real months < maxMonths)"

function amortization_loop ::
  "real \<Rightarrow> real \<Rightarrow> real \<Rightarrow> real \<Rightarrow> js_date \<Rightarrow> loop_state \<Rightarrow> loop_state" where
  "amortization_loop payment monthlyRate extraMonthlyPayment maxMonths baseDate s =
     (if loop_guard maxMonths s
      then amortization_loop payment monthlyRate extraMonthlyPayment maxMonths baseDate
             (loop_body payment monthlyRate extraMonthlyPayment baseDate s)
      else s)"
  by pat_completeness auto
termination
proof (relation "measure (\<lambda>(mp, r, e, maxMonths, bd, s). nat \<lceil>maxMonths\<rceil> - fst (snd (snd s)))")
  show "wf (measure (\<lambda>(mp, r, e, maxMonths, bd, s). nat \<lceil>maxMonths\<rceil> - fst (snd (snd s))))"
    by simp
next
  fix payment monthlyRate extraMonthlyPayment maxMonths :: real
  fix baseDate :: js_date and s :: loop_state
  assume g: "loop_guard maxMonths s"
  obtain b t m sc where s: "s = (b, t, m, sc)" by (cases s) auto
  from g s have "real m < maxMonths" by simp
  then have "m < nat \<lceil>maxMonths\<rceil>" by linarith
  then show "((payment, monthlyRate, extraMonthlyPayment, maxMonths, baseDate,
                loop_body payment monthlyRate extraMonthlyPayment baseDate s),
              (payment, monthlyRate, extraMonthlyPayment, maxMonths, baseDate, s))
             \<in> measure (\<lambda>(mp, r, e, maxMonths, bd, s). nat \<lceil>maxMonths\<rceil> - fst (snd (snd s)))"
    using s by (simp add: Let_def)
qed

declare amortization_loop.simps [simp del]

text \<open>
  \<^verbatim>\<open>calculateAmortization(principal, annualRate, termYears, extraMonthlyPayment, startDate)\<close>.
  The two default arguments of the source (\<open>0\<close> and the current date) are passed
  explicitly. The \<^verbatim>\<open>throw\<close> of line 56 is the value \<open>Inl InvalidInput\<close>.
\<close>

definition calculateAmortization ::
  "real \<Rightarrow> real \<Rightarrow> real \<Rightarrow> real \<Rightarrow> js_date \<Rightarrow> error + real AmortizationResult" where
  "calculateAmortization principalAmount annualRate termYears extraMonthlyPayment startDate =
   (if principalAmount \<le> 0 \<or> annualRate < 0 \<or> termYears \<le> 0 \<or> extraMonthlyPayment < 0
    then Inl InvalidInput
    else
      let monthlyRate = (annualRate / 100) / 12;
          totalMonths = termYears * 12;
          payment =
            (if monthlyRate = 0 then principalAmount / totalMonths
             else
               let compoundFactor = Math_pow (1 + monthlyRate) totalMonths
               in principalAmount * (monthlyRate * compoundFactor) / (compoundFactor - 1));
          payment' = Math_round (payment * 100) / 100;
          totalInterestWithoutExtra = (payment' * totalMonths) - principalAmount;
          maxMonths = totalMonths * 2;
          baseDate = startDate;
          (balance, totalInterest, months, sched) =
            amortization_loop payment' monthlyRate extraMonthlyPayment maxMonths baseDate
              (principalAmount, 0, 0, []);
          totalInterest' = Math_round (totalInterest * 100) / 100;
          saved = max 0 (totalInterestWithoutExtra - totalInterest');
          roundedInterestSaved = Math_round (saved * 100) / 100
      in Inr \<lparr>monthsToPayoff = months, totalInterestPaid = totalInterest',
               totalInterestSaved = roundedInterestSaved, monthlyPayment = payment',
               schedule = sched\<rparr>)"

text \<open>\<^verbatim>\<open>calculateMonthlyPayment(principal, annualRate, termYears)\<close> (lines 214 to 230).\<close>

definition calculateMonthlyPayment :: "real \<Rightarrow> real \<Rightarrow> real \<Rightarrow> real" where
  "calculateMonthlyPayment principalAmount annualRate termYears =
   (if principalAmount \<le> 0 \<or> termYears \<le> 0 then 0
    else
      let monthlyRate = (annualRate / 100) / 12;
          totalMonths = termYears * 12
      in if monthlyRate = 0 then principalAmount / totalMonths
         else
           let compoundFactor = Math_pow (1 + monthlyRate) totalMonths;
               payment = principalAmount * (monthlyRate * compoundFactor) / (compoundFactor - 1)
           in Math_round (payment * 100) / 100)"

section \<open>The refinance analyzer\<close>


section \<open>The same program over an arbitrary arithmetic\<close>

text \<open>
  The definitions above compute on exact reals. The source computes on binary
  floating-point numbers, where a product can fall on the other side of a half-cent tie,
  where \<^verbatim>\<open>Math.pow\<close> can overflow to infinity, and where a payment can be NaN. What
  does not depend on the arithmetic is therefore stated once more for an arbitrary
  arithmetic: a type \<open>'n\<close> of numbers with the operations the source uses, about which
  nothing is assumed. The exact reals are one instance (\<open>real_arith\<close>), the numbers of
  JavaScript are another.

  \<open>n_lit\<close> is a number literal of the source; \<open>n_lt\<close>, \<open>n_le\<close> and \<open>n_eq\<close> are \<^verbatim>\<open><\<close>,
  \<^verbatim>\<open><=\<close> and \<^verbatim>\<open>===\<close> (the source's \<^verbatim>\<open>a > b\<close> is \<open>n_lt b a\<close>); \<open>n_round\<close>, \<open>n_pow\<close>,
  \<open>n_abs\<close> and \<open>n_max\<close> are \<^verbatim>\<open>Math.round\<close>, \<^verbatim>\<open>Math.pow\<close>, \<^verbatim>\<open>Math.abs\<close> and
  \<^verbatim>\<open>Math.max\<close>. The month counter stays a natural number, compared as the literal of its
  value.
\<close>

record 'n arith =
  n_lit :: "real \<Rightarrow> 'n"
  n_add :: "'n \<Rightarrow> 'n \<Rightarrow> 'n"
  n_sub :: "'n \<Rightarrow> 'n \<Rightarrow> 'n"
  n_mul :: "'n \<Rightarrow> 'n \<Rightarrow> 'n"
  n_div :: "'n \<Rightarrow> 'n \<Rightarrow> 'n"
  n_lt :: "'n \<Rightarrow> 'n \<Rightarrow> bool"
  n_le :: "'n \<Rightarrow> 'n \<Rightarrow> bool"
  n_eq :: "'n \<Rightarrow> 'n \<Rightarrow> bool"
  n_round :: "'n \<Rightarrow> 'n"
  n_pow :: "'n \<Rightarrow> 'n \<Rightarrow> 'n"
  n_abs :: "'n \<Rightarrow> 'n"
  n_max :: "'n \<Rightarrow> 'n \<Rightarrow> 'n"

definition real_arith :: "real arith" where
  "real_arith =
     \<lparr>n_lit = (\<lambda>x. x), n_add = (+), n_sub = (-), n_mul = (*), n_div = (/),
      n_lt = (<), n_le = (\<le>), n_eq = (=), n_round = Math_round, n_pow = Math_pow,
      n_abs = abs, n_max = max\<rparr>"

text \<open>The expression \<^verbatim>\<open>Math.round(x * 100) / 100\<close>, which the source writes out each time.\<close>

definition to_cents :: "'n arith \<Rightarrow> 'n \<Rightarrow> 'n" where
  "to_cents A x = n_div A (n_round A (n_mul A x (n_lit A 100))) (n_lit A 100)"







section \<open>Derived notions used in the proofs\<close>

text \<open>
  The loop body updates the balance, the running interest total and the schedule
  independently of one another. The next three functions are these three updates, written
  without the intermediate variables; \<open>loop_body_eq\<close> below shows that they are exactly what
  \<^const>\<open>loop_body\<close> computes.
\<close>

definition next_balance :: "real \<Rightarrow> real \<Rightarrow> real \<Rightarrow> real \<Rightarrow> real" where
  "next_balance p r e b =
     Math_round ((if b - (p - b * r + e) < 0 then 0 else b - (p - b * r + e)) * 100) / 100"

definition next_total :: "real \<Rightarrow> real \<Rightarrow> real \<Rightarrow> real \<Rightarrow> real \<Rightarrow> real" where
  "next_total p r e b t =
     (if b - (p - b * r + e) < 0 then max 0 (t + b * r - \<bar>b - (p - b * r + e)\<bar>)
      else t + b * r)"

definition next_record ::
  "real \<Rightarrow> real \<Rightarrow> real \<Rightarrow> js_date \<Rightarrow> real \<Rightarrow> nat \<Rightarrow> real PaymentRecord" where
  "next_record p r e bd b m =
     \<lparr>paymentNumber = m + 1, date = setMonth bd (monthIndex bd + int (m + 1)),
      interestPaid = Math_round (b * r * 100) / 100,
      principalPaid = Math_round ((p - b * r + e) * 100) / 100,
      remainingBalance = next_balance p r e b\<rparr>"

text \<open>
  The balance and the month counter evolve independently of the interest total and of the
  schedule: \<open>balance_loop\<close> is the loop restricted to these two variables
  (\<open>loop_balance_months\<close> below).
\<close>

function balance_loop :: "real \<Rightarrow> real \<Rightarrow> real \<Rightarrow> real \<Rightarrow> real \<times> nat \<Rightarrow> real \<times> nat" where
  "balance_loop p r e mx (b, m) =
     (if b > 0.01 \<and> real m < mx then balance_loop p r e mx (next_balance p r e b, m + 1)
      else (b, m))"
  by pat_completeness auto
termination
  by (relation "measure (\<lambda>(p, r, e, mx, b, m). nat \<lceil>mx\<rceil> - m)") (auto, linarith)

declare balance_loop.simps [simp del]

text \<open>The standard payment as \<^const>\<open>calculateAmortization\<close> computes it (lines 60 to 76).\<close>

definition standard_payment :: "real \<Rightarrow> real \<Rightarrow> real \<Rightarrow> real" where
  "standard_payment principalAmount annualRate termYears =
     Math_round
       ((if annualRate / 100 / 12 = 0 then principalAmount / (termYears * 12)
         else principalAmount *
                (annualRate / 100 / 12 * Math_pow (1 + annualRate / 100 / 12) (termYears * 12)) /
                (Math_pow (1 + annualRate / 100 / 12) (termYears * 12) - 1)) * 100) / 100"

text \<open>
  What the specification means by a currency amount with two decimal places, and by an
  amount rounded to two decimal places: a whole number of cents, and the whole number of
  cents nearest to the amount.
\<close>

definition whole_cents :: "real \<Rightarrow> bool" where
  "whole_cents v = (of_int \<lfloor>v * 100\<rfloor> = v * 100)"

definition rounded_to_cents :: "real \<Rightarrow> real \<Rightarrow> bool" where
  "rounded_to_cents x v = (whole_cents v \<and> \<bar>v - x\<bar> \<le> 1 / 200)"






section \<open>The loop, one step at a time\<close>

lemma loop_body_eq:
  "loop_body p r e bd (b, t, m, sc) =
     (next_balance p r e b, next_total p r e b t, m + 1, sc @ [next_record p r e bd b m])"
  by (simp add: Let_def next_balance_def next_total_def next_record_def)

declare loop_body.simps [simp del]

lemma loop_unfold:
  "amortization_loop p r e mx bd (b, t, m, sc) =
     (if b > 0.01 \<and> real m < mx
      then amortization_loop p r e mx bd
             (next_balance p r e b, next_total p r e b t, m + 1, sc @ [next_record p r e bd b m])
      else (b, t, m, sc))"
  by (subst amortization_loop.simps) (simp only: loop_guard.simps loop_body_eq)

lemma loop_step:
  "b > 0.01 \<and> real m < mx \<Longrightarrow>
     amortization_loop p r e mx bd (b, t, m, sc) =
     amortization_loop p r e mx bd
       (next_balance p r e b, next_total p r e b t, m + 1, sc @ [next_record p r e bd b m])"
  by (subst loop_unfold) (simp only: if_P)

lemma loop_stop:
  "\<not> (b > 0.01 \<and> real m < mx) \<Longrightarrow> amortization_loop p r e mx bd (b, t, m, sc) = (b, t, m, sc)"
  by (subst loop_unfold) (simp only: if_False)

lemma balance_loop_step:
  "b > 0.01 \<and> real m < mx \<Longrightarrow>
     balance_loop p r e mx (b, m) = balance_loop p r e mx (next_balance p r e b, m + 1)"
  by (subst balance_loop.simps) (simp only: if_P)

lemma balance_loop_stop:
  "\<not> (b > 0.01 \<and> real m < mx) \<Longrightarrow> balance_loop p r e mx (b, m) = (b, m)"
  by (subst balance_loop.simps) (simp only: if_False)

lemma loop_invariant:
  "P s \<Longrightarrow> (\<forall>s. P s \<longrightarrow> loop_guard mx s \<longrightarrow> P (loop_body p r e bd s)) \<Longrightarrow>
     P (amortization_loop p r e mx bd s)"
proof (induction p r e mx bd s rule: amortization_loop.induct)
  case (1 p r e mx bd s)
  show ?case
  proof (cases "loop_guard mx s")
    case True
    then have "P (loop_body p r e bd s)"
      using "1.prems" by blast
    then have "P (amortization_loop p r e mx bd (loop_body p r e bd s))"
      using "1.IH" [OF True] "1.prems"(2) by blast
    then show ?thesis
      using True by (subst amortization_loop.simps) simp
  next
    case False
    then show ?thesis
      using "1.prems"(1) by (subst amortization_loop.simps) simp
  qed
qed

lemma loop_exit: "\<not> loop_guard mx (amortization_loop p r e mx bd s)"
proof (induction p r e mx bd s rule: amortization_loop.induct)
  case (1 p r e mx bd s)
  show ?case
  proof (cases "loop_guard mx s")
    case True
    then show ?thesis
      using "1.IH" by (subst amortization_loop.simps) simp
  next
    case False
    then show ?thesis
      by (subst amortization_loop.simps) simp
  qed
qed

lemma loop_balance_months:
  "(fst (amortization_loop p r e mx bd (b, t, m, sc)),
    fst (snd (snd (amortization_loop p r e mx bd (b, t, m, sc))))) = balance_loop p r e mx (b, m)"
proof (induction p r e mx "(b, m)" arbitrary: b m t sc rule: balance_loop.induct)
  case (1 p r e mx b m)
  show ?case
  proof (cases "b > 0.01 \<and> real m < mx")
    case True
    show ?thesis
      using "1.hyps" [OF True] by (simp only: loop_step [OF True] balance_loop_step [OF True])
  next
    case False
    show ?thesis
      by (simp only: loop_stop [OF False] balance_loop_stop [OF False] fst_conv snd_conv)
  qed
qed

lemma loop_months:
  "fst (snd (snd (amortization_loop p r e mx bd (b, t, m, sc)))) = snd (balance_loop p r e mx (b, m))"
  using loop_balance_months [of p r e mx bd b t m sc] by (metis snd_conv)

lemma balance_loop_ge: "m \<le> snd (balance_loop p r e mx (b, m))"
proof (induction p r e mx "(b, m)" arbitrary: b m rule: balance_loop.induct)
  case (1 p r e mx b m)
  show ?case
  proof (cases "b > 0.01 \<and> real m < mx")
    case True
    have "m + 1 \<le> snd (balance_loop p r e mx (next_balance p r e b, m + 1))"
      using "1.hyps" [OF True] .
    then show ?thesis
      by (simp only: balance_loop_step [OF True])
  next
    case False
    show ?thesis
      by (simp only: balance_loop_stop [OF False] snd_conv order_refl)
  qed
qed

lemma balance_loop_compose:
  "k \<le> mx \<Longrightarrow> balance_loop p r e mx (balance_loop p r e k s) = balance_loop p r e mx s"
proof (induction p r e k s rule: balance_loop.induct)
  case (1 p r e k b m)
  show ?case
  proof (cases "b > 0.01 \<and> real m < k")
    case True
    then have g: "b > 0.01 \<and> real m < mx"
      using "1.prems" by auto
    show ?thesis
      using "1.IH" [OF True "1.prems"]
      by (simp only: balance_loop_step [OF True] balance_loop_step [OF g])
  next
    case False
    show ?thesis
      by (simp only: balance_loop_stop [OF False])
  qed
qed

section \<open>Rounding to cents\<close>

lemma Math_round_mono: "x \<le> y \<Longrightarrow> Math_round x \<le> Math_round y"
  by (simp add: Math_round_def floor_mono)

lemma Math_round_whole_cents: "whole_cents (Math_round y / 100)"
  by (simp add: whole_cents_def Math_round_def)

lemma Math_round_cents: "rounded_to_cents x (Math_round (x * 100) / 100)"
proof -
  let ?k = "\<lfloor>x * 100 + 1 / 2\<rfloor>"
  have a: "real_of_int ?k \<le> x * 100 + 1 / 2"
    by (rule of_int_floor_le)
  have b: "x * 100 + 1 / 2 < real_of_int ?k + 1"
    by linarith
  have "\<bar>real_of_int ?k / 100 - x\<bar> \<le> 1 / 200"
    using a b by linarith
  then show ?thesis
    by (simp add: rounded_to_cents_def whole_cents_def Math_round_def)
qed

lemma next_balance_cents: "\<exists>k::int. 0 \<le> k \<and> next_balance p r e b = of_int k / 100"
proof -
  let ?y = "(if b - (p - b * r + e) < 0 then 0 else b - (p - b * r + e)) * 100"
  have "0 \<le> ?y" by simp
  then have "0 \<le> \<lfloor>?y + 1 / 2\<rfloor>" by simp
  then show ?thesis
    unfolding next_balance_def Math_round_def by blast
qed

lemma next_balance_mono:
  assumes "0 \<le> r" "b2 \<le> b1" "e1 \<le> e2"
  shows "next_balance p r e2 b2 \<le> next_balance p r e1 b1"
proof -
  have "b2 * r \<le> b1 * r"
    using assms by (simp add: mult_right_mono)
  then have le: "b2 - (p - b2 * r + e2) \<le> b1 - (p - b1 * r + e1)"
    using assms by linarith
  then have "(if b2 - (p - b2 * r + e2) < 0 then 0 else b2 - (p - b2 * r + e2)) * 100
      \<le> (if b1 - (p - b1 * r + e1) < 0 then 0 else b1 - (p - b1 * r + e1)) * 100"
    by auto
  then show ?thesis
    unfolding next_balance_def by (simp add: Math_round_mono divide_right_mono)
qed

lemma balance_loop_mono:
  "0 \<le> r \<Longrightarrow> b2 \<le> b1 \<Longrightarrow> e1 \<le> e2 \<Longrightarrow>
     snd (balance_loop p r e2 mx (b2, m)) \<le> snd (balance_loop p r e1 mx (b1, m))"
proof (induction p r e1 mx "(b1, m)" arbitrary: b1 b2 m rule: balance_loop.induct)
  case (1 p r e1 mx b1 m)
  show ?case
  proof (cases "b1 > 0.01 \<and> real m < mx")
    case g1: True
    show ?thesis
    proof (cases "b2 > 0.01 \<and> real m < mx")
      case g2: True
      have "next_balance p r e2 b2 \<le> next_balance p r e1 b1"
        using "1.prems" by (simp add: next_balance_mono)
      then have "snd (balance_loop p r e2 mx (next_balance p r e2 b2, m + 1))
          \<le> snd (balance_loop p r e1 mx (next_balance p r e1 b1, m + 1))"
        using "1.hyps" [OF g1 "1.prems"(1) _ "1.prems"(3)] by simp
      then show ?thesis
        by (simp only: balance_loop_step [OF g1] balance_loop_step [OF g2])
    next
      case g2: False
      show ?thesis
        by (simp only: balance_loop_stop [OF g2] snd_conv balance_loop_ge)
    qed
  next
    case g1: False
    then have g2: "\<not> (b2 > 0.01 \<and> real m < mx)"
      using "1.prems"(2) by auto
    show ?thesis
      by (simp only: balance_loop_stop [OF g1] balance_loop_stop [OF g2] snd_conv order_refl)
  qed
qed

section \<open>Invariants of the loop\<close>

lemma loop_numbers:
  assumes "map paymentNumber sc = [1..<Suc m]"
  shows "map paymentNumber (snd (snd (snd (amortization_loop p r e mx bd (b, t, m, sc))))) =
           [1..<Suc (fst (snd (snd (amortization_loop p r e mx bd (b, t, m, sc)))))]"
proof (rule loop_invariant
    [where P = "\<lambda>s. map paymentNumber (snd (snd (snd s))) = [1..<Suc (fst (snd (snd s)))]"])
  show "map paymentNumber (snd (snd (snd (b, t, m, sc)))) = [1..<Suc (fst (snd (snd (b, t, m, sc))))]"
    using assms by simp
  show "\<forall>s. map paymentNumber (snd (snd (snd s))) = [1..<Suc (fst (snd (snd s)))] \<longrightarrow>
          loop_guard mx s \<longrightarrow>
          map paymentNumber (snd (snd (snd (loop_body p r e bd s)))) =
            [1..<Suc (fst (snd (snd (loop_body p r e bd s))))]"
    by (clarsimp simp: loop_body_eq next_record_def)
qed

lemma loop_cap:
  assumes "int m \<le> \<lceil>mx\<rceil>"
  shows "int (fst (snd (snd (amortization_loop p r e mx bd (b, t, m, sc))))) \<le> \<lceil>mx\<rceil>"
proof (rule loop_invariant [where P = "\<lambda>s. int (fst (snd (snd s))) \<le> \<lceil>mx\<rceil>"])
  show "int (fst (snd (snd (b, t, m, sc)))) \<le> \<lceil>mx\<rceil>"
    using assms by simp
  show "\<forall>s. int (fst (snd (snd s))) \<le> \<lceil>mx\<rceil> \<longrightarrow> loop_guard mx s \<longrightarrow>
          int (fst (snd (snd (loop_body p r e bd s)))) \<le> \<lceil>mx\<rceil>"
  proof (intro allI impI)
    fix s :: loop_state
    assume g: "loop_guard mx s"
    obtain b' t' m' sc' where s: "s = (b', t', m', sc')"
      by (cases s) auto
    from g s have "real m' < mx" by simp
    then have "int m' + 1 \<le> \<lceil>mx\<rceil>" by linarith
    then show "int (fst (snd (snd (loop_body p r e bd s)))) \<le> \<lceil>mx\<rceil>"
      by (simp add: s loop_body_eq)
  qed
qed

lemma loop_last_balance:
  assumes "sc \<noteq> [] \<longrightarrow> remainingBalance (last sc) = b \<and> (\<exists>k::int. 0 \<le> k \<and> b = of_int k / 100)"
  shows "snd (snd (snd (amortization_loop p r e mx bd (b, t, m, sc)))) \<noteq> [] \<longrightarrow>
           remainingBalance (last (snd (snd (snd (amortization_loop p r e mx bd (b, t, m, sc))))))
             = fst (amortization_loop p r e mx bd (b, t, m, sc)) \<and>
           (\<exists>k::int. 0 \<le> k \<and> fst (amortization_loop p r e mx bd (b, t, m, sc)) = of_int k / 100)"
proof (rule loop_invariant
    [where P = "\<lambda>s. snd (snd (snd s)) \<noteq> [] \<longrightarrow>
                  remainingBalance (last (snd (snd (snd s)))) = fst s \<and>
                  (\<exists>k::int. 0 \<le> k \<and> fst s = of_int k / 100)"])
  show "snd (snd (snd (b, t, m, sc))) \<noteq> [] \<longrightarrow>
          remainingBalance (last (snd (snd (snd (b, t, m, sc))))) = fst (b, t, m, sc) \<and>
          (\<exists>k::int. 0 \<le> k \<and> fst (b, t, m, sc) = of_int k / 100)"
    using assms by simp
  show "\<forall>s. (snd (snd (snd s)) \<noteq> [] \<longrightarrow>
               remainingBalance (last (snd (snd (snd s)))) = fst s \<and>
               (\<exists>k::int. 0 \<le> k \<and> fst s = of_int k / 100)) \<longrightarrow>
          loop_guard mx s \<longrightarrow>
          (snd (snd (snd (loop_body p r e bd s))) \<noteq> [] \<longrightarrow>
             remainingBalance (last (snd (snd (snd (loop_body p r e bd s))))) =
               fst (loop_body p r e bd s) \<and>
             (\<exists>k::int. 0 \<le> k \<and> fst (loop_body p r e bd s) = of_int k / 100))"
    using next_balance_cents by (clarsimp simp: loop_body_eq next_record_def)
qed


section \<open>The result of a valid call\<close>

lemma calc_valid:
  assumes "0 < p" "0 \<le> a" "0 < t" "0 \<le> e"
  shows "calculateAmortization p a t e d =
     (let L = amortization_loop (standard_payment p a t) (a / 100 / 12) e (t * 12 * 2) d
                (p, 0, 0, [])
      in Inr \<lparr>monthsToPayoff = fst (snd (snd L)),
               totalInterestPaid = Math_round (fst (snd L) * 100) / 100,
               totalInterestSaved =
                 Math_round (max 0 (standard_payment p a t * (t * 12) - p
                                      - Math_round (fst (snd L) * 100) / 100) * 100) / 100,
               monthlyPayment = standard_payment p a t,
               schedule = snd (snd (snd L))\<rparr>)"
  using assms
  by (simp add: calculateAmortization_def standard_payment_def Let_def case_prod_beta)

section \<open>Four small loans, evaluated\<close>

lemma standard_payment_1000_24: "standard_payment 1000 24 (1 / 4) = 34675 / 100"
  by (simp add: standard_payment_def Math_pow_def Math_round_def power3_eq_cube)

lemma standard_payment_100_0: "standard_payment 100 0 (1 / 4) = 3333 / 100"
  by (simp add: standard_payment_def Math_round_def)


lemmas run_simps =
  calc_valid Let_def loop_unfold next_balance_def next_total_def next_record_def Math_round_def
  setMonth_def

lemma calc_1000_24_0:
  "calculateAmortization 1000 24 (1 / 4) 0 \<lparr>fullYear = 2024, monthIndex = 0\<rparr> =
   Inr \<lparr>monthsToPayoff = 4, totalInterestPaid = 0, totalInterestSaved = 161 / 4,
         monthlyPayment = 34675 / 100,
         schedule =
    [\<lparr>paymentNumber = 1, date = \<lparr>fullYear = 2024, monthIndex = 1\<rparr>, interestPaid = 20,
       principalPaid = 1307 / 4, remainingBalance = 2693 / 4\<rparr>,
     \<lparr>paymentNumber = 2, date = \<lparr>fullYear = 2024, monthIndex = 2\<rparr>, interestPaid = 1347 / 100,
       principalPaid = 33329 / 100, remainingBalance = 33997 / 100\<rparr>,
     \<lparr>paymentNumber = 3, date = \<lparr>fullYear = 2024, monthIndex = 3\<rparr>, interestPaid = 34 / 5,
       principalPaid = 6799 / 20, remainingBalance = 1 / 50\<rparr>,
     \<lparr>paymentNumber = 4, date = \<lparr>fullYear = 2024, monthIndex = 4\<rparr>, interestPaid = 0,
       principalPaid = 1387 / 4, remainingBalance = 0\<rparr>]\<rparr>"
  by (simp add: run_simps standard_payment_1000_24)

lemma calc_1000_24_10:
  "calculateAmortization 1000 24 (1 / 4) 10 \<lparr>fullYear = 2024, monthIndex = 0\<rparr> =
   Inr \<lparr>monthsToPayoff = 3, totalInterestPaid = 227 / 25, totalInterestSaved = 3117 / 100,
         monthlyPayment = 34675 / 100,
         schedule =
    [\<lparr>paymentNumber = 1, date = \<lparr>fullYear = 2024, monthIndex = 1\<rparr>, interestPaid = 20,
       principalPaid = 1347 / 4, remainingBalance = 2653 / 4\<rparr>,
     \<lparr>paymentNumber = 2, date = \<lparr>fullYear = 2024, monthIndex = 2\<rparr>, interestPaid = 1327 / 100,
       principalPaid = 34349 / 100, remainingBalance = 31977 / 100\<rparr>,
     \<lparr>paymentNumber = 3, date = \<lparr>fullYear = 2024, monthIndex = 3\<rparr>, interestPaid = 32 / 5,
       principalPaid = 7007 / 20, remainingBalance = 0\<rparr>]\<rparr>"
  by (simp add: run_simps standard_payment_1000_24)

lemma calc_100_0:
  "calculateAmortization 100 0 (1 / 4) 0 \<lparr>fullYear = 2024, monthIndex = 0\<rparr> =
   Inr \<lparr>monthsToPayoff = 3, totalInterestPaid = 0, totalInterestSaved = 0,
         monthlyPayment = 3333 / 100,
         schedule =
    [\<lparr>paymentNumber = 1, date = \<lparr>fullYear = 2024, monthIndex = 1\<rparr>, interestPaid = 0,
       principalPaid = 3333 / 100, remainingBalance = 6667 / 100\<rparr>,
     \<lparr>paymentNumber = 2, date = \<lparr>fullYear = 2024, monthIndex = 2\<rparr>, interestPaid = 0,
       principalPaid = 3333 / 100, remainingBalance = 1667 / 50\<rparr>,
     \<lparr>paymentNumber = 3, date = \<lparr>fullYear = 2024, monthIndex = 3\<rparr>, interestPaid = 0,
       principalPaid = 3333 / 100, remainingBalance = 1 / 100\<rparr>]\<rparr>"
  by (simp add: run_simps standard_payment_100_0)



section \<open>General properties of a valid call\<close>

lemma calc_valid_props:
  assumes "0 < p" "0 \<le> a" "0 < t" "0 \<le> e"
  shows "\<exists>res. calculateAmortization p a t e d = Inr res \<and>
           monthsToPayoff res =
             snd (balance_loop (standard_payment p a t) (a / 100 / 12) e (t * 12 * 2) (p, 0)) \<and>
           map paymentNumber (schedule res) = [1..<Suc (monthsToPayoff res)] \<and>
           int (monthsToPayoff res) \<le> \<lceil>t * 12 * 2\<rceil> \<and>
           (real (monthsToPayoff res) < t * 12 * 2 \<and> schedule res \<noteq> [] \<longrightarrow>
              remainingBalance (last (schedule res)) = 0 \<or>
              remainingBalance (last (schedule res)) = 1 / 100)"
proof -
  let ?sp = "standard_payment p a t" and ?r = "a / 100 / 12" and ?mx = "t * 12 * 2"
  let ?L = "amortization_loop ?sp ?r e ?mx d (p, 0, 0, [])"
  let ?res = "\<lparr>monthsToPayoff = fst (snd (snd ?L)),
               totalInterestPaid = Math_round (fst (snd ?L) * 100) / 100,
               totalInterestSaved =
                 Math_round (max 0 (?sp * (t * 12) - p
                                      - Math_round (fst (snd ?L) * 100) / 100) * 100) / 100,
               monthlyPayment = ?sp,
               schedule = snd (snd (snd ?L))\<rparr>"
  have eq: "calculateAmortization p a t e d = Inr ?res"
    using calc_valid [OF assms, of d] by (simp only: Let_def)
  have months: "monthsToPayoff ?res = snd (balance_loop ?sp ?r e ?mx (p, 0))"
    by (simp add: loop_months)
  have numbers: "map paymentNumber (schedule ?res) = [1..<Suc (monthsToPayoff ?res)]"
    using loop_numbers [of "[]" 0 ?sp ?r e ?mx d p 0] by simp
  have "0 \<le> \<lceil>?mx\<rceil>"
    using assms(3) by (simp add: ceiling_le_iff le_ceiling_iff)
  then have cap: "int (monthsToPayoff ?res) \<le> \<lceil>?mx\<rceil>"
    using loop_cap [of 0 ?mx ?sp ?r e d p 0 "[]"] by simp
  have last: "real (monthsToPayoff ?res) < ?mx \<and> schedule ?res \<noteq> [] \<longrightarrow>
      remainingBalance (last (schedule ?res)) = 0 \<or>
      remainingBalance (last (schedule ?res)) = 1 / 100"
  proof
    assume h: "real (monthsToPayoff ?res) < ?mx \<and> schedule ?res \<noteq> []"
    have "remainingBalance (last (snd (snd (snd ?L)))) = fst ?L \<and>
        (\<exists>k::int. 0 \<le> k \<and> fst ?L = of_int k / 100)"
      using loop_last_balance [of "[]" p ?sp ?r e ?mx d 0 0] h by simp
    then obtain k :: int where k: "0 \<le> k" "fst ?L = of_int k / 100"
      and rb: "remainingBalance (last (snd (snd (snd ?L)))) = fst ?L"
      by blast
    obtain b' t' m' sc' where L: "?L = (b', t', m', sc')"
      by (cases ?L) auto
    have "\<not> loop_guard ?mx ?L"
      by (rule loop_exit)
    with L h have "\<not> b' > 0.01"
      by simp
    with L k have "real_of_int k \<le> 1"
      by simp
    then have "k = 0 \<or> k = 1"
      using k(1) by linarith
    then show "remainingBalance (last (schedule ?res)) = 0 \<or>
      remainingBalance (last (schedule ?res)) = 1 / 100"
      using rb k(2) by auto
  qed
  from eq months numbers cap last show ?thesis
    by blast
qed

section \<open>The exact reals as an arithmetic\<close>

lemma to_cents_real: "to_cents real_arith x = Math_round (x * 100) / 100"
  by (simp add: to_cents_def real_arith_def)

lemma to_cents_real_nearest: "rounded_to_cents x (to_cents real_arith x)"
  by (simp only: to_cents_real) (rule Math_round_cents)






section \<open>Invariants over an arbitrary arithmetic\<close>










section \<open>Input validation\<close>

text \<open>
  Claim C3. \<^const>\<open>calculateAmortization\<close> fails with \<open>InvalidInput\<close> exactly when the
  principal is not positive, the annual rate is negative, the term is not positive or the
  extra payment is negative. The failure is the first thing the function decides, and a
  failed call is the bare error \<open>Inl InvalidInput\<close>, which carries no result; every other
  call returns a result.
\<close>

theorem calculateAmortization_InvalidInput_iff:
  "(calculateAmortization p a t e d = Inl InvalidInput \<longleftrightarrow>
      (p \<le> 0 \<or> a < 0 \<or> t \<le> 0 \<or> e < 0)) \<and>
   ((\<exists>res. calculateAmortization p a t e d = Inr res) \<longleftrightarrow>
      \<not> (p \<le> 0 \<or> a < 0 \<or> t \<le> 0 \<or> e < 0))"
  by (simp add: calculateAmortization_def Let_def case_prod_beta)

theorem calculateAmortization_InvalidInput_iff_witness:
  "calculateAmortization 0 6 30 0 \<lparr>fullYear = 2024, monthIndex = 0\<rparr> = Inl InvalidInput \<and>
   (\<exists>res. calculateAmortization 300000 6 30 0 \<lparr>fullYear = 2024, monthIndex = 0\<rparr> = Inr res)"
  using calculateAmortization_InvalidInput_iff [of 0 6 30 0 "\<lparr>fullYear = 2024, monthIndex = 0\<rparr>"]
    calculateAmortization_InvalidInput_iff
      [of 300000 6 30 0 "\<lparr>fullYear = 2024, monthIndex = 0\<rparr>"]
  by simp

section \<open>The refinance break-even point\<close>



section \<open>The standard payment\<close>

text \<open>
  With an interest rate other than zero, \<^const>\<open>calculateMonthlyPayment\<close> returns a whole
  number of cents.
\<close>

lemma calculateMonthlyPayment_rounded:
  assumes "0 < p" "0 < t" "a \<noteq> 0"
  shows "whole_cents (calculateMonthlyPayment p a t)"
  using assms by (simp add: calculateMonthlyPayment_def Let_def Math_round_whole_cents)

text \<open>
  Claim C6 says that the payment returned by \<^const>\<open>calculateMonthlyPayment\<close> is a whole
  number of cents for every rate, zero included. The zero-rate branch returns the
  quotient as it is: a loan of \<open>100\<close> over one year at a rate of zero has the payment
  \<open>25 / 3\<close>, which is no whole number of cents.
\<close>

theorem calculateMonthlyPayment_zero_rate_unrounded:
  "calculateMonthlyPayment 100 0 1 = 25 / 3 \<and> \<not> whole_cents (calculateMonthlyPayment 100 0 1)"
  by (simp add: calculateMonthlyPayment_def whole_cents_def)

section \<open>Termination and the safety cap\<close>




section \<open>Payment numbers\<close>

text \<open>
  Claim C8. For every valid input the schedule has \<open>monthsToPayoff\<close> entries, and the
  payment numbers of its entries are \<open>1, 2, \<dots>\<close> in this order: the \<open>k\<close>-th entry,
  counted from one, has the payment number \<open>k\<close>.
\<close>

theorem calculateAmortization_payment_numbers:
  assumes "0 < p" "0 \<le> a" "0 < t" "0 \<le> e"
  shows "\<exists>res. calculateAmortization p a t e d = Inr res \<and>
           length (schedule res) = monthsToPayoff res \<and>
           map paymentNumber (schedule res) = [1..<Suc (monthsToPayoff res)] \<and>
           (\<forall>k. 1 \<le> k \<and> k \<le> length (schedule res) \<longrightarrow>
                paymentNumber (schedule res ! (k - 1)) = k)"
proof -
  obtain res where res: "calculateAmortization p a t e d = Inr res"
    "map paymentNumber (schedule res) = [1..<Suc (monthsToPayoff res)]"
    using calc_valid_props [OF assms, of d] by blast
  have "length (map paymentNumber (schedule res)) = monthsToPayoff res"
    by (simp only: res(2)) simp
  then have len: "length (schedule res) = monthsToPayoff res"
    by simp
  have "paymentNumber (schedule res ! (k - 1)) = k" if "1 \<le> k \<and> k \<le> length (schedule res)" for k
  proof -
    have lt: "k - 1 < length (schedule res)"
      using that by linarith
    then have "paymentNumber (schedule res ! (k - 1)) = map paymentNumber (schedule res) ! (k - 1)"
      by simp
    also have "\<dots> = [1..<Suc (monthsToPayoff res)] ! (k - 1)"
      by (simp only: res(2))
    also have "\<dots> = 1 + (k - 1)"
      by (rule nth_upt) (use lt len in linarith)
    also have "\<dots> = k"
      using that by simp
    finally show ?thesis .
  qed
  with res len show ?thesis
    by blast
qed

theorem calculateAmortization_payment_numbers_witness:
  "\<exists>res. calculateAmortization 100 0 (1 / 4) 0 \<lparr>fullYear = 2024, monthIndex = 0\<rparr> = Inr res \<and>
     length (schedule res) = 3 \<and> monthsToPayoff res = 3 \<and>
     map paymentNumber (schedule res) = [1, 2, 3] \<and>
     paymentNumber (schedule res ! (3 - 1)) = 3"
  using calculateAmortization_payment_numbers [of 100 0 "1 / 4" 0 "\<lparr>fullYear = 2024, monthIndex = 0\<rparr>"]
  by (simp add: calc_100_0)

section \<open>Loans of at most one cent\<close>

text \<open>
  Claim C9 says that every valid input gives at least one payment. The loop is not
  entered when the balance is at most \<open>0.01\<close>: a principal of \<open>1 / 128\<close> is valid and
  gives no payment and an empty schedule.
\<close>

theorem calculateAmortization_nonempty_counterexample:
  "map_sum id monthsToPayoff
     (calculateAmortization (1 / 128) 6 30 0 \<lparr>fullYear = 2024, monthIndex = 0\<rparr>) = Inr 0 \<and>
   map_sum id schedule
     (calculateAmortization (1 / 128) 6 30 0 \<lparr>fullYear = 2024, monthIndex = 0\<rparr>) = Inr []"
  by (simp add: calc_valid Let_def loop_stop)

text \<open>
  Claim C9, amended. For every valid input with a principal above \<open>0.01\<close>,
  \<open>monthsToPayoff\<close> is at least one and the schedule is not empty.
\<close>

theorem calculateAmortization_nonempty:
  assumes "1 / 100 < p" "0 \<le> a" "0 < t" "0 \<le> e"
  shows "\<exists>res. calculateAmortization p a t e d = Inr res \<and>
           1 \<le> monthsToPayoff res \<and> schedule res \<noteq> []"
proof -
  let ?sp = "standard_payment p a t" and ?r = "a / 100 / 12" and ?mx = "t * 12 * 2"
  have p: "0 < p"
    using assms(1) by simp
  obtain res where res: "calculateAmortization p a t e d = Inr res"
    "monthsToPayoff res = snd (balance_loop ?sp ?r e ?mx (p, 0))"
    "map paymentNumber (schedule res) = [1..<Suc (monthsToPayoff res)]"
    using calc_valid_props [OF p assms(2-4), of d] by blast
  have g: "p > 0.01 \<and> real (0::nat) < ?mx"
    using assms by simp
  have "0 + 1 \<le> snd (balance_loop ?sp ?r e ?mx (next_balance ?sp ?r e p, 0 + 1))"
    by (rule balance_loop_ge)
  then have m: "1 \<le> monthsToPayoff res"
    by (simp only: res(2) balance_loop_step [OF g])
  have "length (map paymentNumber (schedule res)) = monthsToPayoff res"
    by (simp only: res(3)) simp
  then have "length (schedule res) = monthsToPayoff res"
    by simp
  with m have "schedule res \<noteq> []"
    by auto
  with res(1) m show ?thesis
    by blast
qed

theorem calculateAmortization_nonempty_witness:
  "\<exists>res. calculateAmortization 100 0 (1 / 4) 0 \<lparr>fullYear = 2024, monthIndex = 0\<rparr> = Inr res \<and>
     1 \<le> monthsToPayoff res \<and> schedule res \<noteq> []"
  using calculateAmortization_nonempty [of 100 0 "1 / 4" 0 "\<lparr>fullYear = 2024, monthIndex = 0\<rparr>"] by simp

section \<open>The last remaining balance\<close>




section \<open>Extra payments\<close>

text \<open>
  A larger extra payment never increases the number of months: the balance after each
  payment is monotone in the balance before it and antitone in the extra payment.
\<close>

lemma calculateAmortization_extra_payment_months:
  assumes "0 < p" "0 \<le> a" "0 < t" "0 \<le> e1" "e1 \<le> e2"
  shows "\<exists>r1 r2. calculateAmortization p a t e1 d = Inr r1 \<and>
           calculateAmortization p a t e2 d = Inr r2 \<and>
           monthsToPayoff r2 \<le> monthsToPayoff r1"
proof -
  let ?sp = "standard_payment p a t" and ?r = "a / 100 / 12" and ?mx = "t * 12 * 2"
  have e2: "0 \<le> e2"
    using assms by simp
  obtain r1 where r1: "calculateAmortization p a t e1 d = Inr r1"
    "monthsToPayoff r1 = snd (balance_loop ?sp ?r e1 ?mx (p, 0))"
    using calc_valid_props [OF assms(1-4), of d] by blast
  obtain r2 where r2: "calculateAmortization p a t e2 d = Inr r2"
    "monthsToPayoff r2 = snd (balance_loop ?sp ?r e2 ?mx (p, 0))"
    using calc_valid_props [OF assms(1-3) e2, of d] by blast
  have "0 \<le> ?r"
    using assms(2) by simp
  then have "monthsToPayoff r2 \<le> monthsToPayoff r1"
    using balance_loop_mono [of ?r p p e1 e2 ?sp ?mx 0] assms(5) by (simp only: r1(2) r2(2))
  with r1(1) r2(1) show ?thesis
    by blast
qed

lemma calculateAmortization_extra_payment_months_example:
  "\<exists>r1 r2. calculateAmortization 1000 24 (1 / 4) 0 \<lparr>fullYear = 2024, monthIndex = 0\<rparr> = Inr r1 \<and>
     calculateAmortization 1000 24 (1 / 4) 10 \<lparr>fullYear = 2024, monthIndex = 0\<rparr> = Inr r2 \<and>
     monthsToPayoff r2 \<le> monthsToPayoff r1"
  using calculateAmortization_extra_payment_months
      [of 1000 24 "1 / 4" 0 10 "\<lparr>fullYear = 2024, monthIndex = 0\<rparr>"]
  by simp

text \<open>
  Claim C5 says that a larger extra payment never increases \<open>monthsToPayoff\<close> nor
  \<open>totalInterestPaid\<close>. The interest total does increase: lines 115 to 119 subtract the
  overpaid principal of the last month from the interest total, so a run that ends with a
  large overpayment reports too little interest. A loan of \<open>1000\<close> at \<open>24\<close> percent over three
  months reports an interest total of \<open>0\<close> without extra payment and of \<open>9.08\<close> with an
  extra payment of \<open>10\<close>.
\<close>

theorem calculateAmortization_extra_payment_interest:
  "map_sum id totalInterestPaid
     (calculateAmortization 1000 24 (1 / 4) 0 \<lparr>fullYear = 2024, monthIndex = 0\<rparr>) = Inr 0 \<and>
   map_sum id totalInterestPaid
     (calculateAmortization 1000 24 (1 / 4) 10 \<lparr>fullYear = 2024, monthIndex = 0\<rparr>) = Inr (227 / 25) \<and>
   \<not> (227 / 25 :: real) \<le> 0"
  by (simp add: calc_1000_24_0 calc_1000_24_10)

section \<open>The loan of the scenario: 300000 at 6 percent over 30 years\<close>

lemma power_bounds_mult:
  fixes c :: real
  assumes "l1 \<le> c ^ j \<and> c ^ j \<le> u1" "l2 \<le> c ^ k \<and> c ^ k \<le> u2"
    and "0 \<le> l1" "0 \<le> l2" "L \<le> l1 * l2" "u1 * u2 \<le> U"
  shows "L \<le> c ^ (j + k) \<and> c ^ (j + k) \<le> U"
proof -
  have "l1 * l2 \<le> c ^ j * c ^ k"
    using assms by (intro mult_mono) auto
  moreover have "c ^ j * c ^ k \<le> u1 * u2"
    using assms by (intro mult_mono) auto
  ultimately show ?thesis
    using assms(5,6) by (simp add: power_add)
qed

lemma compound_factor_bounds:
  "6022575 / 1000000 \<le> (201 / 200 :: real) ^ 360 \<and> (201 / 200 :: real) ^ 360 \<le> 6022576 / 1000000"
proof -
  define c :: real where "c = 201 / 200"
  have c2: "40401 / 40000 \<le> c ^ 2 \<and> c ^ 2 \<le> 40401 / 40000"
    by (simp add: c_def power2_eq_square)
  have c4: "1632240801 / 1600000000 \<le> c ^ 4 \<and> c ^ 4 \<le> 1632240801 / 1600000000"
    using power_bounds_mult [OF c2 c2, of "1632240801 / 1600000000" "1632240801 / 1600000000"] by simp
  have c8: "41628281757 / 40000000000 \<le> c ^ 8 \<and> c ^ 8 \<le> 520353521963 / 500000000000"
    using power_bounds_mult [OF c4 c4, of "41628281757 / 40000000000" "520353521963 / 500000000000"] by simp
  have c16: "43322846051 / 40000000000 \<le> c ^ 16 \<and> c ^ 16 \<le> 541535575639 / 500000000000"
    using power_bounds_mult [OF c8 c8, of "43322846051 / 40000000000" "541535575639 / 500000000000"] by simp
  have c32: "293260779681 / 250000000000 \<le> c ^ 32 \<and> c ^ 32 \<le> 1173043118731 / 1000000000000"
    using power_bounds_mult [OF c16 c16, of "293260779681 / 250000000000" "1173043118731 / 1000000000000"] by simp
  have c64: "275206031677 / 200000000000 \<le> c ^ 64 \<and> c ^ 64 \<le> 1376030158403 / 1000000000000"
    using power_bounds_mult [OF c32 c32, of "275206031677 / 200000000000" "1376030158403 / 1000000000000"] by simp
  have c128: "378691799357 / 200000000000 \<le> c ^ 128 \<and> c ^ 128 \<le> 378691799367 / 200000000000"
    using power_bounds_mult [OF c64 c64, of "378691799357 / 200000000000" "378691799367 / 200000000000"] by simp
  have c256: "1792593486253 / 500000000000 \<le> c ^ 256 \<and> c ^ 256 \<le> 448148371587 / 125000000000"
    using power_bounds_mult [OF c128 c128, of "1792593486253 / 500000000000" "448148371587 / 125000000000"] by simp
  have c40: "1220794236483 / 1000000000000 \<le> c ^ 40 \<and> c ^ 40 \<le> 1220794236493 / 1000000000000"
    using power_bounds_mult [OF c32 c8, of "1220794236483 / 1000000000000" "1220794236493 / 1000000000000"] by simp
  have c104: "1679849686583 / 1000000000000 \<le> c ^ 104 \<and> c ^ 104 \<le> 1679849686619 / 1000000000000"
    using power_bounds_mult [OF c64 c40, of "1679849686583 / 1000000000000" "1679849686619 / 1000000000000"] by simp
  have c360: "1204515042421 / 200000000000 \<le> c ^ 360 \<and> c ^ 360 \<le> 3011287606277 / 500000000000"
    using power_bounds_mult [OF c256 c104, of "1204515042421 / 200000000000" "3011287606277 / 500000000000"] by simp
  from c360 show ?thesis
    by (simp add: c_def)
qed

lemma standard_payment_300000: "standard_payment 300000 6 30 = 179865 / 100"
proof -
  define x :: real where "x = (201 / 200) ^ 360"
  have lo: "6022575 / 1000000 \<le> x" and hi: "x \<le> 6022576 / 1000000"
    using compound_factor_bounds by (simp_all add: x_def)
  have pos: "0 < x - 1"
    using lo by simp
  have "(179865 - 1 / 2) * (x - 1) \<le> 150000 * x"
    using lo hi by simp
  then have a: "179865 - 1 / 2 \<le> 150000 * x / (x - 1)"
    using pos by (simp only: pos_le_divide_eq)
  have "150000 * x < (179866 - 1 / 2) * (x - 1)"
    using lo hi by simp
  then have b: "150000 * x / (x - 1) < 179866 - 1 / 2"
    using pos by (simp only: pos_divide_less_eq)
  have "\<lfloor>150000 * x / (x - 1) + 1 / 2\<rfloor> = 179865"
    using a b by (simp add: floor_eq_iff)
  then have "Math_round (150000 * x / (x - 1)) / 100 = 179865 / 100"
    by (simp add: Math_round_def)
  moreover have "standard_payment 300000 6 30 = Math_round (150000 * x / (x - 1)) / 100"
    by (simp add: standard_payment_def Math_pow_def x_def)
  ultimately show ?thesis
    by simp
qed

lemma months_0_36:
  "balance_loop (179865 / 100) (1 / 200) 0 36 (300000, 0) = (14412613 / 50, 36)"
  by (simp add: balance_loop.simps next_balance_def Math_round_def)

lemma months_36_72:
  "balance_loop (179865 / 100) (1 / 200) 0 72 (14412613 / 50, 36) = (5483879 / 20, 72)"
  by (simp add: balance_loop.simps next_balance_def Math_round_def)

lemma months_72_108:
  "balance_loop (179865 / 100) (1 / 200) 0 108 (5483879 / 20, 72) = (12868533 / 50, 108)"
  by (simp add: balance_loop.simps next_balance_def Math_round_def)

lemma months_108_144:
  "balance_loop (179865 / 100) (1 / 200) 0 144 (12868533 / 50, 108) = (23723859 / 100, 144)"
  by (simp add: balance_loop.simps next_balance_def Math_round_def)

lemma months_144_180:
  "balance_loop (179865 / 100) (1 / 200) 0 180 (23723859 / 100, 144) = (21314693 / 100, 180)"
  by (simp add: balance_loop.simps next_balance_def Math_round_def)

lemma months_180_216:
  "balance_loop (179865 / 100) (1 / 200) 0 216 (21314693 / 100, 180) = (4607923 / 25, 216)"
  by (simp add: balance_loop.simps next_balance_def Math_round_def)

lemma months_216_252:
  "balance_loop (179865 / 100) (1 / 200) 0 252 (4607923 / 25, 216) = (3745414 / 25, 252)"
  by (simp add: balance_loop.simps next_balance_def Math_round_def)

lemma months_252_288:
  "balance_loop (179865 / 100) (1 / 200) 0 288 (3745414 / 25, 252) = (2713267 / 25, 288)"
  by (simp add: balance_loop.simps next_balance_def Math_round_def)

lemma months_288_324:
  "balance_loop (179865 / 100) (1 / 200) 0 324 (2713267 / 25, 288) = (1182493 / 20, 324)"
  by (simp add: balance_loop.simps next_balance_def Math_round_def)

lemma months_324_360:
  "balance_loop (179865 / 100) (1 / 200) 0 360 (1182493 / 20, 324) = (36 / 25, 360)"
  by (simp add: balance_loop.simps next_balance_def Math_round_def)

lemma months_360_361:
  "balance_loop (179865 / 100) (1 / 200) 0 720 (36 / 25, 360) = (0, 361)"
  by (simp add: balance_loop.simps next_balance_def Math_round_def)

lemma months_300000:
  "balance_loop (179865 / 100) (6 / 100 / 12) 0 (30 * 12 * 2) (300000, 0) = (0, 361)"
proof -
  let ?p = "179865 / 100 :: real" and ?r = "1 / 200 :: real"
  have "balance_loop ?p ?r 0 720 (300000, 0) =
      balance_loop ?p ?r 0 720 (balance_loop ?p ?r 0 36 (300000, 0))"
    by (rule balance_loop_compose [symmetric]) simp
  also have "\<dots> = balance_loop ?p ?r 0 720 (14412613 / 50, 36)"
    by (simp only: months_0_36)
  also have "\<dots> =
      balance_loop ?p ?r 0 720 (balance_loop ?p ?r 0 72 (14412613 / 50, 36))"
    by (rule balance_loop_compose [symmetric]) simp
  also have "\<dots> = balance_loop ?p ?r 0 720 (5483879 / 20, 72)"
    by (simp only: months_36_72)
  also have "\<dots> =
      balance_loop ?p ?r 0 720 (balance_loop ?p ?r 0 108 (5483879 / 20, 72))"
    by (rule balance_loop_compose [symmetric]) simp
  also have "\<dots> = balance_loop ?p ?r 0 720 (12868533 / 50, 108)"
    by (simp only: months_72_108)
  also have "\<dots> =
      balance_loop ?p ?r 0 720 (balance_loop ?p ?r 0 144 (12868533 / 50, 108))"
    by (rule balance_loop_compose [symmetric]) simp
  also have "\<dots> = balance_loop ?p ?r 0 720 (23723859 / 100, 144)"
    by (simp only: months_108_144)
  also have "\<dots> =
      balance_loop ?p ?r 0 720 (balance_loop ?p ?r 0 180 (23723859 / 100, 144))"
    by (rule balance_loop_compose [symmetric]) simp
  also have "\<dots> = balance_loop ?p ?r 0 720 (21314693 / 100, 180)"
    by (simp only: months_144_180)
  also have "\<dots> =
      balance_loop ?p ?r 0 720 (balance_loop ?p ?r 0 216 (21314693 / 100, 180))"
    by (rule balance_loop_compose [symmetric]) simp
  also have "\<dots> = balance_loop ?p ?r 0 720 (4607923 / 25, 216)"
    by (simp only: months_180_216)
  also have "\<dots> =
      balance_loop ?p ?r 0 720 (balance_loop ?p ?r 0 252 (4607923 / 25, 216))"
    by (rule balance_loop_compose [symmetric]) simp
  also have "\<dots> = balance_loop ?p ?r 0 720 (3745414 / 25, 252)"
    by (simp only: months_216_252)
  also have "\<dots> =
      balance_loop ?p ?r 0 720 (balance_loop ?p ?r 0 288 (3745414 / 25, 252))"
    by (rule balance_loop_compose [symmetric]) simp
  also have "\<dots> = balance_loop ?p ?r 0 720 (2713267 / 25, 288)"
    by (simp only: months_252_288)
  also have "\<dots> =
      balance_loop ?p ?r 0 720 (balance_loop ?p ?r 0 324 (2713267 / 25, 288))"
    by (rule balance_loop_compose [symmetric]) simp
  also have "\<dots> = balance_loop ?p ?r 0 720 (1182493 / 20, 324)"
    by (simp only: months_288_324)
  also have "\<dots> =
      balance_loop ?p ?r 0 720 (balance_loop ?p ?r 0 360 (1182493 / 20, 324))"
    by (rule balance_loop_compose [symmetric]) simp
  also have "\<dots> = balance_loop ?p ?r 0 720 (36 / 25, 360)"
    by (simp only: months_324_360)
  also have "\<dots> = (0, 361)"
    by (rule months_360_361)
  finally show ?thesis
    by simp
qed


lemma loop_first_entry:
  assumes "sc \<noteq> []"
  shows "snd (snd (snd (amortization_loop p r e mx bd (b, t, m, sc)))) ! 0 = sc ! 0"
proof -
  have "snd (snd (snd (amortization_loop p r e mx bd (b, t, m, sc)))) \<noteq> [] \<and>
      snd (snd (snd (amortization_loop p r e mx bd (b, t, m, sc)))) ! 0 = sc ! 0"
  proof (rule loop_invariant
      [where P = "\<lambda>s. snd (snd (snd s)) \<noteq> [] \<and> snd (snd (snd s)) ! 0 = sc ! 0"])
    show "snd (snd (snd (b, t, m, sc))) \<noteq> [] \<and> snd (snd (snd (b, t, m, sc))) ! 0 = sc ! 0"
      using assms by simp
    show "\<forall>s. snd (snd (snd s)) \<noteq> [] \<and> snd (snd (snd s)) ! 0 = sc ! 0 \<longrightarrow>
            loop_guard mx s \<longrightarrow>
            snd (snd (snd (loop_body p r e bd s))) \<noteq> [] \<and>
            snd (snd (snd (loop_body p r e bd s))) ! 0 = sc ! 0"
      by (clarsimp simp: loop_body_eq nth_append)
  qed
  then show ?thesis
    by simp
qed

lemma scenario_months:
  "map_sum id monthsToPayoff (calculateAmortization 300000 6 30 0 d) = Inr 361"
proof -
  have "fst (snd (snd (amortization_loop (179865 / 100) (6 / 100 / 12) 0 (30 * 12 * 2) d
      (300000, 0, 0, [])))) = 361"
    by (simp only: loop_months months_300000 snd_conv)
  then show ?thesis
    by (simp add: calc_valid standard_payment_300000 Let_def)
qed

lemma scenario_payment:
  "map_sum id monthlyPayment (calculateAmortization 300000 6 30 0 d) = Inr (179865 / 100)"
  by (simp add: calc_valid standard_payment_300000 Let_def)

lemma scenario_first_entry:
  "map_sum id (\<lambda>res. schedule res ! 0) (calculateAmortization 300000 6 30 0 d) =
     Inr \<lparr>paymentNumber = 1, date = setMonth d (monthIndex d + 1), interestPaid = 1500,
           principalPaid = 29865 / 100, remainingBalance = 29970135 / 100\<rparr>"
proof -
  let ?p = "179865 / 100 :: real" and ?r = "6 / 100 / 12 :: real" and ?mx = "30 * 12 * 2 :: real"
  have g: "(300000::real) > 0.01 \<and> real (0::nat) < ?mx"
    by simp
  have "snd (snd (snd (amortization_loop ?p ?r 0 ?mx d (300000, 0, 0, [])))) ! 0 =
      ([] @ [next_record ?p ?r 0 d 300000 0]) ! 0"
    by (simp only: loop_step [OF g]) (rule loop_first_entry, simp)
  also have "\<dots> = \<lparr>paymentNumber = 1, date = setMonth d (monthIndex d + 1), interestPaid = 1500,
           principalPaid = 29865 / 100, remainingBalance = 29970135 / 100\<rparr>"
    by (simp add: next_record_def next_balance_def Math_round_def)
  finally show ?thesis
    by (simp add: calc_valid standard_payment_300000 Let_def)
qed

text \<open>
  Claim C1 says that this loan has the monthly payment \<open>1798.65\<close>, is paid off in \<open>360\<close>
  months, and has a first entry with an interest of \<open>1500.00\<close> and a principal part of
  \<open>298.65\<close>. The payment is the annuity \<open>1798.6516\<dots>\<close> rounded down to the cent, so a
  balance of \<open>1.44\<close> remains after \<open>360\<close> payments and the loop makes one more: the
  number of months returned is \<open>361\<close>.
\<close>

theorem calculateAmortization_scenario_counterexample:
  "map_sum id monthsToPayoff
     (calculateAmortization 300000 6 30 0 \<lparr>fullYear = 2024, monthIndex = 0\<rparr>) = Inr 361 \<and>
   (361::nat) \<noteq> 360"
  by (simp add: scenario_months)

text \<open>
  Claim C1, amended. For the principal \<open>300000\<close>, the rate \<open>6\<close>, the term \<open>30\<close> and no
  extra payment, whatever the start date, \<^const>\<open>calculateAmortization\<close> returns the
  monthly payment \<open>1798.65\<close>, \<open>monthsToPayoff = 361\<close>, and a first schedule entry with
  \<open>interestPaid = 1500.00\<close> and \<open>principalPaid = 298.65\<close>.
\<close>

theorem calculateAmortization_scenario:
  "\<exists>res. calculateAmortization 300000 6 30 0 d = Inr res \<and>
     monthlyPayment res = 179865 / 100 \<and> monthsToPayoff res = 361 \<and>
     interestPaid (schedule res ! 0) = 1500 \<and> principalPaid (schedule res ! 0) = 29865 / 100"
proof -
  obtain res where res: "calculateAmortization 300000 6 30 0 d = Inr res"
    by (simp add: calc_valid Let_def)
  have "monthlyPayment res = 179865 / 100"
    using scenario_payment [of d] by (simp add: res)
  moreover have "monthsToPayoff res = 361"
    using scenario_months [of d] by (simp add: res)
  moreover have "schedule res ! 0 =
      \<lparr>paymentNumber = 1, date = setMonth d (monthIndex d + 1), interestPaid = 1500,
        principalPaid = 29865 / 100, remainingBalance = 29970135 / 100\<rparr>"
    using scenario_first_entry [of d] by (simp add: res)
  ultimately show ?thesis
    using res by simp
qed

section \<open>The month of the overpayment\<close>



end
